theory Spec2Isabelle
  imports Main
begin

section \<open>Python values the dashboard handles\<close>

text \<open>
  A Python \<open>str\<close> is a sequence of Unicode code points, so user text (keywords, ticker,
  username, time window) is a list of code points. Text that the script itself writes
  (tool names, dictionary keys, messages) and the output of \<open>json.dumps\<close>, which is ASCII
  under the default \<open>ensure_ascii=True\<close>, are ordinary strings.
\<close>

type_synonym pystr = "nat list"

definition str :: "string \<Rightarrow> pystr" where
  "str s = map of_char s"

text \<open>An exception, identified by the text \<open>str(e)\<close> gives.\<close>

type_synonym exn = string

text \<open>A \<open>datetime.date\<close> as returned by \<open>st.date_input\<close>.\<close>

record date =
  year :: int
  month :: int
  day :: int

section \<open>json.dumps on the dictionaries the script builds\<close>

text \<open>
  The values the script puts into its dictionaries are \<open>int\<close>, \<open>str\<close> and \<open>bool\<close>. A
  dictionary literal keeps its keys in the order written, and \<open>json.dumps\<close> (called with
  no options) writes them in that order, separated by \<open>", "\<close>, key and value separated by
  \<open>": "\<close>.
\<close>

datatype json = JInt int | JStr pystr | JBool bool

type_synonym payload = "(string \<times> json) list"

definition digit_char :: "nat \<Rightarrow> char" where
  "digit_char d = char_of (48 + d)"

fun show_nat :: "nat \<Rightarrow> string" where
  "show_nat n = (if n < 10 then [digit_char n] else show_nat (n div 10) @ [digit_char (n mod 10)])"

declare show_nat.simps [simp del]

definition show_int :: "int \<Rightarrow> string" where
  "show_int i = (if i < 0 then CHR ''-'' # show_nat (nat (- i)) else show_nat (nat i))"

definition hex_digit :: "nat \<Rightarrow> char" where
  "hex_digit d = (if d < 10 then char_of (48 + d) else char_of (87 + d))"

definition u_escape :: "nat \<Rightarrow> string" where
  "u_escape n = [CHR 0x5C, CHR ''u'', hex_digit (n div 4096 mod 16), hex_digit (n div 256 mod 16),
                 hex_digit (n div 16 mod 16), hex_digit (n mod 16)]"

text \<open>
  One code point under \<open>ensure_ascii\<close>: backslash and double quote are escaped, the
  printable ASCII range \<open>0x20..0x7E\<close> is kept, the five short escapes are used for
  backspace, form feed, newline, carriage return and tab, every other code point of the
  basic plane becomes \<open>\uXXXX\<close>, and a code point beyond it a surrogate pair.
\<close>

definition escape_ascii :: "nat \<Rightarrow> string" where
  "escape_ascii c =
     (if c = 0x5C then [CHR 0x5C, CHR 0x5C]
      else if c = 0x22 then [CHR 0x5C, CHR 0x22]
      else if 0x20 \<le> c \<and> c \<le> 0x7E then [char_of c]
      else if c = 8 then [CHR 0x5C, CHR ''b'']
      else if c = 12 then [CHR 0x5C, CHR ''f'']
      else if c = 10 then [CHR 0x5C, CHR ''n'']
      else if c = 13 then [CHR 0x5C, CHR ''r'']
      else if c = 9 then [CHR 0x5C, CHR ''t'']
      else if c < 0x10000 then u_escape c
      else (let n = c - 0x10000
            in u_escape (0xD800 + n div 1024 mod 1024) @ u_escape (0xDC00 + n mod 1024)))"

definition encode_basestring_ascii :: "pystr \<Rightarrow> string" where
  "encode_basestring_ascii s = [CHR 0x22] @ concat (map escape_ascii s) @ [CHR 0x22]"

fun dumps_value :: "json \<Rightarrow> string" where
  "dumps_value (JInt i) = show_int i"
| "dumps_value (JStr s) = encode_basestring_ascii s"
| "dumps_value (JBool b) = (if b then ''true'' else ''false'')"

fun join :: "string \<Rightarrow> string list \<Rightarrow> string" where
  "join sep [] = []"
| "join sep [x] = x"
| "join sep (x # y # ys) = x @ sep @ join sep (y # ys)"

definition dumps_item :: "string \<times> json \<Rightarrow> string" where
  "dumps_item kv = encode_basestring_ascii (str (fst kv)) @ '': '' @ dumps_value (snd kv)"

definition json_dumps :: "payload \<Rightarrow> string" where
  "json_dumps d = ''{'' @ join '', '' (map dumps_item d) @ ''}''"

section \<open>Tools, and what a run of the script leaves behind\<close>

text \<open>
  A tool of the registry \<open>get_elfaai_tools\<close> returns: its \<open>name\<close>, and \<open>_arun\<close>, which
  takes the JSON text and either returns a result or raises.
\<close>

record 'r tool =
  name :: string
  arun :: "string \<Rightarrow> exn + 'r"

text \<open>
  What a handler does, in order: the Streamlit calls it makes, and \<open>ARun n p\<close> for the
  call \<open>tool._arun(p)\<close> on the tool named \<open>n\<close>. A run ends by reaching the end of the
  script (\<open>Finished\<close>), by \<open>st.stop()\<close> (\<open>Stopped\<close>), or by an exception that nothing in
  the script catches (\<open>Raised\<close>).
\<close>

datatype 'r event =
    Markdown string
  | Spinner string
  | Info string
  | Error string
  | Json 'r
  | ARun string string

datatype status = Finished | Stopped | Raised exn

type_synonym 'r run = "'r event list \<times> status"

definition and_then :: "'r run \<Rightarrow> 'r run \<Rightarrow> 'r run" where
  "and_then r k = (if snd r = Finished then (fst r @ fst k, snd k) else r)"

text \<open>\<open>run_async(coro)\<close> is \<open>asyncio.run(coro)\<close>: the coroutine's result, or its exception.\<close>

definition run_async :: "exn + 'r \<Rightarrow> exn + 'r" where
  "run_async coro = coro"

text \<open>
  The six lines every branch ends with:
  \<^verbatim>\<open>tool = next((t for t in tools if t.name == N), None)\<close>, then
  \<^verbatim>\<open>if tool: result = run_async(tool._arun(input)); st.json(result)\<close>,
  \<^verbatim>\<open>else: st.error(M)\<close>. The generator yields the tools in list order, so the
  lookup is the first tool of that name; a tool object is truthy, so \<open>if tool\<close> tests
  only whether one was found. The call stands in no \<open>try\<close>.
\<close>

definition lookup_and_run :: "'r tool list \<Rightarrow> string \<Rightarrow> string \<Rightarrow> string \<Rightarrow> 'r run" where
  "lookup_and_run tools n input not_found =
     (case find (\<lambda>t. name t = n) tools of
        Some tool \<Rightarrow>
          (case run_async (arun tool input) of
             Inr result \<Rightarrow> ([ARun (name tool) input, Json result], Finished)
           | Inl e \<Rightarrow> ([ARun (name tool) input], Raised e))
      | None \<Rightarrow> ([Error not_found], Finished))"

section \<open>The five branches\<close>

subsection \<open>Get Smart Mentions\<close>

definition smart_mentions_dict :: "int \<Rightarrow> int \<Rightarrow> payload" where
  "smart_mentions_dict limit offset = [(''limit'', JInt limit), (''offset'', JInt offset)]"

definition smart_mentions :: "'r tool list \<Rightarrow> int \<Rightarrow> int \<Rightarrow> 'r run" where
  "smart_mentions tools limit offset =
     (let smart_mentions_input = json_dumps (smart_mentions_dict limit offset)
      in lookup_and_run tools ''elfa_ai_get_smart_mentions'' smart_mentions_input
           ''Smart Mentions tool not found.'')"

subsection \<open>Get Top Mentions by Ticker\<close>

definition top_mentions_dict :: "pystr \<Rightarrow> pystr \<Rightarrow> int \<Rightarrow> int \<Rightarrow> bool \<Rightarrow> payload" where
  "top_mentions_dict ticker time_window page page_size include_details =
     [(''ticker'', JStr ticker),
      (''time_window'', JStr time_window),
      (''page'', JInt page),
      (''page_size'', JInt page_size),
      (''include_account_details'', JBool include_details)]"

definition top_mentions :: "'r tool list \<Rightarrow> pystr \<Rightarrow> pystr \<Rightarrow> int \<Rightarrow> int \<Rightarrow> bool \<Rightarrow> 'r run" where
  "top_mentions tools ticker time_window page page_size include_details =
     (let top_mentions_input =
            json_dumps (top_mentions_dict ticker time_window page page_size include_details)
      in lookup_and_run tools ''elfa_ai_get_top_mentions_by_ticker'' top_mentions_input
           ''Top Mentions tool not found.'')"

subsection \<open>Search Mentions by Keywords\<close>

definition one_day :: int where
  "one_day = 86400"

definition thirty_days :: int where
  "thirty_days = 30 * one_day"

definition search_mentions_dict :: "pystr \<Rightarrow> int \<Rightarrow> int \<Rightarrow> int \<Rightarrow> payload" where
  "search_mentions_dict keywords from_ts to_ts requested_limit =
     [(''keywords'', JStr keywords),
      (''from_timestamp'', JInt from_ts),
      (''to_timestamp'', JInt to_ts),
      (''limit'', JInt requested_limit),
      (''cursor'', JStr [])]"

text \<open>
  \<open>timestamp d\<close> stands for \<^verbatim>\<open>int(datetime.datetime.combine(d, datetime.time()).timestamp())\<close>:
  midnight of \<open>d\<close> in the host's local time as Unix seconds, or the exception the
  conversion raises. It depends on the host's time zone, so it is a parameter.
\<close>

definition search_mentions ::
  "(date \<Rightarrow> exn + int) \<Rightarrow> 'r tool list \<Rightarrow> pystr \<Rightarrow> date \<Rightarrow> date \<Rightarrow> int \<Rightarrow> 'r run" where
  "search_mentions timestamp tools keywords from_date to_date limit_input =
     (case timestamp from_date of
        Inl e \<Rightarrow> ([Error (''Date error: '' @ e)], Stopped)
      | Inr from_ts \<Rightarrow>
     (case timestamp to_date of
        Inl e \<Rightarrow> ([Error (''Date error: '' @ e)], Stopped)
      | Inr to_ts \<Rightarrow>
          if \<not> (one_day \<le> to_ts - from_ts \<and> to_ts - from_ts \<le> thirty_days)
          then ([Error ''Error: Date range must be between 1 and 30 days.''], Finished)
          else
            (let requested_limit = limit_input;
                 clamped =
                   (if requested_limit < 20 then ([Info ''Limit below minimum; using 20.''], 20)
                    else if requested_limit > 30 then ([Info ''Limit above maximum; using 30.''], 30)
                    else ([], requested_limit));
                 search_mentions_input =
                   json_dumps (search_mentions_dict keywords from_ts to_ts (snd clamped))
             in and_then (fst clamped, Finished)
                  (lookup_and_run tools ''elfa_ai_search_mentions_by_keywords''
                     search_mentions_input ''Search Mentions tool not found.''))))"

subsection \<open>Get Trending Tokens\<close>

definition trending_tokens_dict :: "pystr \<Rightarrow> int \<Rightarrow> int \<Rightarrow> int \<Rightarrow> payload" where
  "trending_tokens_dict time_window page page_size min_mentions =
     [(''time_window'', JStr time_window),
      (''page'', JInt page),
      (''page_size'', JInt page_size),
      (''min_mentions'', JInt min_mentions)]"

definition trending_tokens :: "'r tool list \<Rightarrow> pystr \<Rightarrow> int \<Rightarrow> int \<Rightarrow> int \<Rightarrow> 'r run" where
  "trending_tokens tools time_window page page_size min_mentions =
     (let trending_tokens_input =
            json_dumps (trending_tokens_dict time_window page page_size min_mentions)
      in lookup_and_run tools ''elfa_ai_get_trending_tokens'' trending_tokens_input
           ''Trending Tokens tool not found.'')"

subsection \<open>Get Twitter Stats\<close>

definition twitter_stats_dict :: "pystr \<Rightarrow> payload" where
  "twitter_stats_dict username = [(''username'', JStr username)]"

definition twitter_stats :: "'r tool list \<Rightarrow> pystr \<Rightarrow> 'r run" where
  "twitter_stats tools username =
     (let twitter_stats_input = json_dumps (twitter_stats_dict username)
      in lookup_and_run tools ''elfa_ai_get_smart_twitter_account_stats'' twitter_stats_input
           ''Twitter Stats tool not found.'')"

section \<open>The script, from the selected option to the closing tag\<close>

text \<open>
  \<open>st.selectbox\<close> returns one of five fixed options, and each branch reads its own
  widgets; a \<open>form\<close> is the selected option with the values of its widgets, in the order
  the branch reads them. Every \<open>st.number_input\<close> of the script is given integer
  \<open>min_value\<close>, \<open>value\<close> and \<open>step\<close>, so it returns an \<open>int\<close> and the \<open>int(...)\<close> around it
  changes nothing.
\<close>

datatype form =
    GetSmartMentions int int
  | GetTopMentionsByTicker pystr pystr int int bool
  | SearchMentionsByKeywords pystr date date int
  | GetTrendingTokens pystr int int int
  | GetTwitterStats pystr

text \<open>The widgets' \<open>value=\<close> arguments, where they do not depend on the day.\<close>

definition smart_mentions_defaults :: form where
  "smart_mentions_defaults = GetSmartMentions 5 0"


definition trending_tokens_defaults :: form where
  "trending_tokens_defaults = GetTrendingTokens (str ''24h'') 1 10 5"

definition twitter_stats_defaults :: form where
  "twitter_stats_defaults = GetTwitterStats []"

fun card_header :: "form \<Rightarrow> string" where
  \<open>card_header (GetSmartMentions _ _) =
     ''<div class="card-header"><i class="fa fa-lightbulb"></i> Get Smart Mentions</div>''\<close>
| \<open>card_header (GetTopMentionsByTicker _ _ _ _ _) =
     ''<div class="card-header"><i class="fa fa-chart-line"></i> Get Top Mentions by Ticker</div>''\<close>
| \<open>card_header (SearchMentionsByKeywords _ _ _ _) =
     ''<div class="card-header"><i class="fa fa-search"></i> Search Mentions by Keywords</div>''\<close>
| \<open>card_header (GetTrendingTokens _ _ _ _) =
     ''<div class="card-header"><i class="fa fa-fire"></i> Get Trending Tokens</div>''\<close>
| \<open>card_header (GetTwitterStats _) =
     ''<div class="card-header"><i class="fa fa-twitter"></i> Get Twitter Stats</div>''\<close>

fun spinner_text :: "form \<Rightarrow> string" where
  "spinner_text (GetSmartMentions _ _) = ''Fetching Smart Mentions...''"
| "spinner_text (GetTopMentionsByTicker _ _ _ _ _) = ''Fetching Top Mentions...''"
| "spinner_text (SearchMentionsByKeywords _ _ _ _) = ''Searching mentions...''"
| "spinner_text (GetTrendingTokens _ _ _ _) = ''Fetching Trending Tokens...''"
| "spinner_text (GetTwitterStats _) = ''Fetching Twitter Stats...''"

text \<open>The body under \<open>if st.button(...)\<close>, inside the spinner.\<close>

fun on_click :: "(date \<Rightarrow> exn + int) \<Rightarrow> 'r tool list \<Rightarrow> form \<Rightarrow> 'r run" where
  "on_click timestamp tools (GetSmartMentions limit offset) = smart_mentions tools limit offset"
| "on_click timestamp tools (GetTopMentionsByTicker ticker time_window page page_size include_details) =
     top_mentions tools ticker time_window page page_size include_details"
| "on_click timestamp tools (SearchMentionsByKeywords keywords from_date to_date limit_input) =
     search_mentions timestamp tools keywords from_date to_date limit_input"
| "on_click timestamp tools (GetTrendingTokens time_window page page_size min_mentions) =
     trending_tokens tools time_window page page_size min_mentions"
| "on_click timestamp tools (GetTwitterStats username) = twitter_stats tools username"

text \<open>
  One run of the selected branch: the card's opening tag and header, the handler when
  the button was pressed, and the closing tag, which is reached only when nothing before
  it stopped the script or raised.
\<close>

definition script :: "(date \<Rightarrow> exn + int) \<Rightarrow> 'r tool list \<Rightarrow> form \<Rightarrow> bool \<Rightarrow> 'r run" where
  \<open>script timestamp tools f clicked =
     and_then ([Markdown ''<div class="card">'', Markdown (card_header f)], Finished)
       (and_then
          (if clicked
           then and_then ([Spinner (spinner_text f)], Finished) (on_click timestamp tools f)
           else ([], Finished))
          ([Markdown ''</div>''], Finished))\<close>

section \<open>Reading a run\<close>

fun invocations :: "'r event list \<Rightarrow> (string \<times> string) list" where
  "invocations [] = []"
| "invocations (ARun n p # es) = (n, p) # invocations es"
| "invocations (_ # es) = invocations es"

fun errors :: "'r event list \<Rightarrow> string list" where
  "errors [] = []"
| "errors (Error m # es) = m # errors es"
| "errors (_ # es) = errors es"

fun infos :: "'r event list \<Rightarrow> string list" where
  "infos [] = []"
| "infos (Info m # es) = m # infos es"
| "infos (_ # es) = infos es"

fun shown :: "'r event list \<Rightarrow> 'r list" where
  "shown [] = []"
| "shown (Json r # es) = r # shown es"
| "shown (_ # es) = shown es"

fun is_raised :: "status \<Rightarrow> bool" where
  "is_raised (Raised _) = True"
| "is_raised _ = False"

definition registered :: "'r tool list \<Rightarrow> string \<Rightarrow> bool" where
  "registered tools n = (find (\<lambda>t. name t = n) tools \<noteq> None)"

text \<open>
  The dictionary a branch passes to \<open>json.dumps\<close> once the button is pressed, when it
  gets that far: the search branch builds one only if both dates convert and the range
  check passes, and puts the clamped limit in it.
\<close>

fun request_dict :: "(date \<Rightarrow> exn + int) \<Rightarrow> form \<Rightarrow> payload option" where
  "request_dict timestamp (GetSmartMentions limit offset) = Some (smart_mentions_dict limit offset)"
| "request_dict timestamp (GetTopMentionsByTicker ticker time_window page page_size include_details) =
     Some (top_mentions_dict ticker time_window page page_size include_details)"
| "request_dict timestamp (SearchMentionsByKeywords keywords from_date to_date limit_input) =
     (case timestamp from_date of
        Inl e \<Rightarrow> None
      | Inr from_ts \<Rightarrow>
     (case timestamp to_date of
        Inl e \<Rightarrow> None
      | Inr to_ts \<Rightarrow>
          if one_day \<le> to_ts - from_ts \<and> to_ts - from_ts \<le> thirty_days
          then Some (search_mentions_dict keywords from_ts to_ts
                       (if limit_input < 20 then 20 else if limit_input > 30 then 30 else limit_input))
          else None))"
| "request_dict timestamp (GetTrendingTokens time_window page page_size min_mentions) =
     Some (trending_tokens_dict time_window page page_size min_mentions)"
| "request_dict timestamp (GetTwitterStats username) = Some (twitter_stats_dict username)"

section \<open>The specification's table of query types\<close>

datatype query_spec =
  SmartMentions | TopMentionsByTicker | SearchByKeywords | TrendingTokens | TwitterStats

fun kind :: "form \<Rightarrow> query_spec" where
  "kind (GetSmartMentions _ _) = SmartMentions"
| "kind (GetTopMentionsByTicker _ _ _ _ _) = TopMentionsByTicker"
| "kind (SearchMentionsByKeywords _ _ _ _) = SearchByKeywords"
| "kind (GetTrendingTokens _ _ _ _) = TrendingTokens"
| "kind (GetTwitterStats _) = TwitterStats"

text \<open>The tool name and the payload fields the specification lists for each query type.\<close>

fun spec_tool_name :: "query_spec \<Rightarrow> string" where
  "spec_tool_name SmartMentions = ''elfa_ai_get_smart_mentions''"
| "spec_tool_name TopMentionsByTicker = ''elfa_ai_get_top_mentions_by_ticker''"
| "spec_tool_name SearchByKeywords = ''elfa_ai_search_mentions_by_keywords''"
| "spec_tool_name TrendingTokens = ''elfa_ai_get_trending_tokens''"
| "spec_tool_name TwitterStats = ''elfa_ai_get_smart_twitter_account_stats''"


text \<open>The message each branch shows when the lookup finds no tool.\<close>

fun not_found_message :: "query_spec \<Rightarrow> string" where
  "not_found_message SmartMentions = ''Smart Mentions tool not found.''"
| "not_found_message TopMentionsByTicker = ''Top Mentions tool not found.''"
| "not_found_message SearchByKeywords = ''Search Mentions tool not found.''"
| "not_found_message TrendingTokens = ''Trending Tokens tool not found.''"
| "not_found_message TwitterStats = ''Twitter Stats tool not found.''"

section \<open>A host whose local time is UTC\<close>

text \<open>
  The conversion on a host running in UTC, where it never raises: the date's proleptic
  Gregorian ordinal, as \<open>datetime\<close> computes it, counted from 1970-01-01 in seconds.
  A \<open>datetime.date\<close> always has a month from 1 to 12.
\<close>

definition is_leap :: "int \<Rightarrow> bool" where
  "is_leap y = (y mod 4 = 0 \<and> (y mod 400 = 0 \<or> y mod 100 \<noteq> 0))"

definition days_before_year :: "int \<Rightarrow> int" where
  "days_before_year y = (y - 1) * 365 + (y - 1) div 4 - (y - 1) div 100 + (y - 1) div 400"

definition days_before_month :: "int \<Rightarrow> int \<Rightarrow> int" where
  "days_before_month y m =
     (if m = 1 then 0 else if m = 2 then 31 else if m = 3 then 59 else if m = 4 then 90
      else if m = 5 then 120 else if m = 6 then 151 else if m = 7 then 181
      else if m = 8 then 212 else if m = 9 then 243 else if m = 10 then 273
      else if m = 11 then 304 else 334)
     + (if m > 2 \<and> is_leap y then 1 else 0)"

definition ymd2ord :: "date \<Rightarrow> int" where
  "ymd2ord d = days_before_year (year d) + days_before_month (year d) (month d) + day d"

definition utc_midnight :: "date \<Rightarrow> exn + int" where
  "utc_midnight d = Inr ((ymd2ord d - 719163) * 86400)"

section \<open>Registries used in the examples\<close>

definition echo_tool :: "string \<Rightarrow> string tool" where
  "echo_tool n = \<lparr>name = n, arun = (\<lambda>p. Inr p)\<rparr>"

definition failing_tool :: "string \<Rightarrow> exn \<Rightarrow> string tool" where
  "failing_tool n e = \<lparr>name = n, arun = (\<lambda>p. Inl e)\<rparr>"

definition echo_registry :: "string tool list" where
  "echo_registry =
     [echo_tool ''elfa_ai_get_smart_mentions'',
      echo_tool ''elfa_ai_get_top_mentions_by_ticker'',
      echo_tool ''elfa_ai_search_mentions_by_keywords'',
      echo_tool ''elfa_ai_get_trending_tokens'',
      echo_tool ''elfa_ai_get_smart_twitter_account_stats'']"

text \<open>The characters \<open>json.dumps\<close> writes as they are.\<close>

definition plain_char :: "char \<Rightarrow> bool" where
  "plain_char c = (0x20 \<le> (of_char c :: nat) \<and> (of_char c :: nat) \<le> 0x7E
                   \<and> (of_char c :: nat) \<noteq> 0x22 \<and> (of_char c :: nat) \<noteq> 0x5C)"

section \<open>Reading runs: helper lemmas\<close>

lemma invocations_append: "invocations (a @ b) = invocations a @ invocations b"
  by (induction a rule: invocations.induct) simp_all

lemma errors_append: "errors (a @ b) = errors a @ errors b"
  by (induction a rule: errors.induct) simp_all

lemma infos_append: "infos (a @ b) = infos a @ infos b"
  by (induction a rule: infos.induct) simp_all

lemma shown_append: "shown (a @ b) = shown a @ shown b"
  by (induction a rule: shown.induct) simp_all

lemma find_name: "find (\<lambda>t. name t = n) tools = Some t \<Longrightarrow> name t = n"
  by (auto simp: find_Some_iff)

lemma lookup_and_run_missing:
  "\<not> registered tools n \<Longrightarrow> lookup_and_run tools n input m = ([Error m], Finished)"
  by (simp add: registered_def lookup_and_run_def)

lemma lookup_and_run_raises:
  "find (\<lambda>t. name t = n) tools = Some t \<Longrightarrow> arun t input = Inl e \<Longrightarrow>
   lookup_and_run tools n input m = ([ARun n input], Raised e)"
  by (frule find_name) (simp add: lookup_and_run_def run_async_def)

lemma lookup_and_run_invocations:
  "invocations (fst (lookup_and_run tools n input m)) = (if registered tools n then [(n, input)] else [])"
  by (auto simp: lookup_and_run_def run_async_def registered_def split: option.splits sum.splits dest: find_name)

lemma lookup_and_run_errors:
  "errors (fst (lookup_and_run tools n input m)) = (if registered tools n then [] else [m])"
  by (auto simp: lookup_and_run_def run_async_def registered_def split: option.splits sum.splits)

lemma lookup_and_run_infos: "infos (fst (lookup_and_run tools n input m)) = []"
  by (auto simp: lookup_and_run_def run_async_def split: option.splits sum.splits)




lemma and_then_Finished: "and_then (es, Finished) k = (es @ fst k, snd k)"
  by (simp add: and_then_def)

lemma search_mentions_dispatch:
  assumes "timestamp from_date = Inr from_ts" and "timestamp to_date = Inr to_ts"
    and "one_day \<le> to_ts - from_ts" and "to_ts - from_ts \<le> thirty_days"
  shows "search_mentions timestamp tools keywords from_date to_date limit_input =
         and_then
           (if limit_input < 20 then [Info ''Limit below minimum; using 20.'']
            else if limit_input > 30 then [Info ''Limit above maximum; using 30.'']
            else [], Finished)
           (lookup_and_run tools ''elfa_ai_search_mentions_by_keywords''
              (json_dumps (search_mentions_dict keywords from_ts to_ts
                 (if limit_input < 20 then 20 else if limit_input > 30 then 30 else limit_input)))
              ''Search Mentions tool not found.'')"
  using assms by (simp add: search_mentions_def Let_def)

lemma search_mentions_rejects:
  assumes "timestamp from_date = Inr from_ts" and "timestamp to_date = Inr to_ts"
    and "\<not> (one_day \<le> to_ts - from_ts \<and> to_ts - from_ts \<le> thirty_days)"
  shows "search_mentions timestamp tools keywords from_date to_date limit_input =
         ([Error ''Error: Date range must be between 1 and 30 days.''], Finished)"
  using assms by (simp add: search_mentions_def)

lemma on_click_dispatch:
  assumes "request_dict timestamp f = Some d"
  shows "\<exists>notes. on_click timestamp tools f =
           and_then (map Info notes, Finished)
             (lookup_and_run tools (spec_tool_name (kind f)) (json_dumps d) (not_found_message (kind f)))"
proof (cases f)
  case (GetSmartMentions limit offset)
  with assms have "on_click timestamp tools f =
      and_then (map Info [], Finished)
        (lookup_and_run tools (spec_tool_name (kind f)) (json_dumps d) (not_found_message (kind f)))"
    by (auto simp: smart_mentions_def and_then_Finished)
  then show ?thesis by blast
next
  case (GetTopMentionsByTicker ticker time_window page page_size include_details)
  with assms have "on_click timestamp tools f =
      and_then (map Info [], Finished)
        (lookup_and_run tools (spec_tool_name (kind f)) (json_dumps d) (not_found_message (kind f)))"
    by (auto simp: top_mentions_def and_then_Finished)
  then show ?thesis by blast
next
  case (SearchMentionsByKeywords kw from_date to_date limit_input)
  from assms SearchMentionsByKeywords obtain from_ts to_ts where
    ts: "timestamp from_date = Inr from_ts" "timestamp to_date = Inr to_ts"
    and rng: "one_day \<le> to_ts - from_ts" "to_ts - from_ts \<le> thirty_days"
    and d: "d = search_mentions_dict kw from_ts to_ts
                  (if limit_input < 20 then 20 else if limit_input > 30 then 30 else limit_input)"
    by (auto split: sum.splits if_splits)
  have "on_click timestamp tools f =
      and_then (map Info (if limit_input < 20 then [''Limit below minimum; using 20.'']
            else if limit_input > 30 then [''Limit above maximum; using 30.''] else []), Finished)
        (lookup_and_run tools (spec_tool_name (kind f)) (json_dumps d) (not_found_message (kind f)))"
    unfolding SearchMentionsByKeywords d
    by (simp add: search_mentions_dispatch[OF ts rng])
  then show ?thesis by blast
next
  case (GetTrendingTokens time_window page page_size min_mentions)
  with assms have "on_click timestamp tools f =
      and_then (map Info [], Finished)
        (lookup_and_run tools (spec_tool_name (kind f)) (json_dumps d) (not_found_message (kind f)))"
    by (auto simp: trending_tokens_def and_then_Finished)
  then show ?thesis by blast
next
  case (GetTwitterStats username)
  with assms have "on_click timestamp tools f =
      and_then (map Info [], Finished)
        (lookup_and_run tools (spec_tool_name (kind f)) (json_dumps d) (not_found_message (kind f)))"
    by (auto simp: twitter_stats_def and_then_Finished)
  then show ?thesis by blast
qed

lemma on_click_blocked:
  assumes "request_dict timestamp f = None"
  shows "invocations (fst (on_click timestamp tools f)) = []
       \<and> infos (fst (on_click timestamp tools f)) = []
       \<and> shown (fst (on_click timestamp tools f)) = []
       \<and> length (errors (fst (on_click timestamp tools f))) = 1
       \<and> \<not> is_raised (snd (on_click timestamp tools f))"
proof (cases f)
  case (SearchMentionsByKeywords kw from_date to_date limit_input)
  with assms show ?thesis
    by (auto simp: search_mentions_def split: sum.splits if_splits)
qed (use assms in simp_all)

lemma invocations_map_Info: "invocations (map Info ns) = []"
  by (induction ns) simp_all

lemma errors_map_Info: "errors (map Info ns) = []"
  by (induction ns) simp_all

lemma shown_map_Info: "shown (map Info ns) = []"
  by (induction ns) simp_all

lemma on_click_invocations:
  assumes "request_dict timestamp f = Some d"
  shows "invocations (fst (on_click timestamp tools f)) =
         (if registered tools (spec_tool_name (kind f)) then [(spec_tool_name (kind f), json_dumps d)] else [])"
proof -
  from on_click_dispatch[OF assms, of tools] obtain ns where
    "on_click timestamp tools f = and_then (map Info ns, Finished)
       (lookup_and_run tools (spec_tool_name (kind f)) (json_dumps d) (not_found_message (kind f)))"
    by blast
  then show ?thesis
    by (simp add: and_then_Finished invocations_append invocations_map_Info lookup_and_run_invocations)
qed

lemma on_click_errors:
  assumes "request_dict timestamp f = Some d"
  shows "errors (fst (on_click timestamp tools f)) =
         (if registered tools (spec_tool_name (kind f)) then [] else [not_found_message (kind f)])"
proof -
  from on_click_dispatch[OF assms, of tools] obtain ns where
    "on_click timestamp tools f = and_then (map Info ns, Finished)
       (lookup_and_run tools (spec_tool_name (kind f)) (json_dumps d) (not_found_message (kind f)))"
    by blast
  then show ?thesis
    by (simp add: and_then_Finished errors_append errors_map_Info lookup_and_run_errors)
qed

text \<open>What the card around the handler adds: markup only.\<close>

lemma script_clicked:
  "script timestamp tools f True =
     (if snd (on_click timestamp tools f) = Finished
      then ([Markdown ''<div class=\"card\">'', Markdown (card_header f), Spinner (spinner_text f)]
              @ fst (on_click timestamp tools f) @ [Markdown ''</div>''], Finished)
      else ([Markdown ''<div class=\"card\">'', Markdown (card_header f), Spinner (spinner_text f)]
              @ fst (on_click timestamp tools f), snd (on_click timestamp tools f)))"
  by (simp add: script_def and_then_def)

lemma script_invocations:
  "invocations (fst (script timestamp tools f True)) = invocations (fst (on_click timestamp tools f))"
  by (simp add: script_clicked invocations_append)

lemma script_errors:
  "errors (fst (script timestamp tools f True)) = errors (fst (on_click timestamp tools f))"
  by (simp add: script_clicked errors_append)

lemma script_infos:
  "infos (fst (script timestamp tools f True)) = infos (fst (on_click timestamp tools f))"
  by (simp add: script_clicked infos_append)

lemma script_shown:
  "shown (fst (script timestamp tools f True)) = shown (fst (on_click timestamp tools f))"
  by (simp add: script_clicked shown_append)

lemma script_status:
  "snd (script timestamp tools f True) = snd (on_click timestamp tools f)"
  by (simp add: script_clicked)


subsection \<open>Evaluating the serialiser on literals\<close>

lemma show_nat_numeral:
  "show_nat (numeral k) =
     (if (numeral k :: nat) < 10 then [digit_char (numeral k)]
      else show_nat (numeral k div 10) @ [digit_char (numeral k mod 10)])"
  by (rule show_nat.simps)

lemma digit_char_eval:
  "digit_char 0 = CHR ''0''" "digit_char 1 = CHR ''1''" "digit_char 2 = CHR ''2''"
  "digit_char 3 = CHR ''3''" "digit_char 4 = CHR ''4''" "digit_char 5 = CHR ''5''"
  "digit_char 6 = CHR ''6''" "digit_char 7 = CHR ''7''" "digit_char 8 = CHR ''8''"
  "digit_char 9 = CHR ''9''"
  by code_simp+

lemma digit_char_Suc_0: "digit_char (Suc 0) = CHR ''1''"
  using digit_char_eval(2) by simp

lemma show_nat_0: "show_nat 0 = ''0''"
  by (simp add: show_nat.simps digit_char_eval)

lemma show_nat_1: "show_nat 1 = ''1''" "show_nat (Suc 0) = ''1''"
  using digit_char_eval(2) by (simp_all add: show_nat.simps)

lemma escape_ascii_plain: "plain_char c \<Longrightarrow> escape_ascii (of_char c) = [c]"
  by (simp add: plain_char_def escape_ascii_def Let_def)

lemma encode_plain:
  "list_all plain_char s \<Longrightarrow> encode_basestring_ascii (str s) = CHR 0x22 # s @ [CHR 0x22]"
  by (induction s) (simp_all add: encode_basestring_ascii_def str_def escape_ascii_plain)

lemma encode_empty: "encode_basestring_ascii [] = [CHR 0x22, CHR 0x22]"
  by (simp add: encode_basestring_ascii_def)

lemmas dumps_eval =
  json_dumps_def dumps_item_def encode_plain plain_char_def
  show_int_def show_nat_numeral show_nat_0 show_nat_1 digit_char_eval digit_char_Suc_0 encode_empty

subsection \<open>Facts about the example host and registry\<close>

lemma utc_2024_01_01: "utc_midnight \<lparr>year = 2024, month = 1, day = 1\<rparr> = Inr 1704067200"
  by (simp add: utc_midnight_def ymd2ord_def days_before_year_def days_before_month_def is_leap_def)

lemma utc_2024_01_02: "utc_midnight \<lparr>year = 2024, month = 1, day = 2\<rparr> = Inr 1704153600"
  by (simp add: utc_midnight_def ymd2ord_def days_before_year_def days_before_month_def is_leap_def)

lemma utc_2024_02_15: "utc_midnight \<lparr>year = 2024, month = 2, day = 15\<rparr> = Inr 1707955200"
  by (simp add: utc_midnight_def ymd2ord_def days_before_year_def days_before_month_def is_leap_def)

lemma echo_registry_registered:
  "registered echo_registry ''elfa_ai_get_smart_mentions''"
  "registered echo_registry ''elfa_ai_get_top_mentions_by_ticker''"
  "registered echo_registry ''elfa_ai_search_mentions_by_keywords''"
  "registered echo_registry ''elfa_ai_get_trending_tokens''"
  "registered echo_registry ''elfa_ai_get_smart_twitter_account_stats''"
  by (simp_all add: registered_def echo_registry_def echo_tool_def)

lemma search_request_dict:
  assumes "timestamp from_date = Inr from_ts" and "timestamp to_date = Inr to_ts"
  shows "request_dict timestamp (SearchMentionsByKeywords kw from_date to_date limit_input) =
         (if 86400 \<le> to_ts - from_ts \<and> to_ts - from_ts \<le> 2592000
          then Some (search_mentions_dict kw from_ts to_ts
                       (if limit_input < 20 then 20 else if limit_input > 30 then 30 else limit_input))
          else None)"
  using assms by (simp add: one_day_def thirty_days_def)

lemma search_rejected_run:
  assumes "timestamp from_date = Inr from_ts" and "timestamp to_date = Inr to_ts"
    and "\<not> (86400 \<le> to_ts - from_ts \<and> to_ts - from_ts \<le> 2592000)"
  shows "on_click timestamp tools (SearchMentionsByKeywords kw from_date to_date limit_input) =
         ([Error ''Error: Date range must be between 1 and 30 days.''], Finished)"
  using assms by (simp add: search_mentions_rejects one_day_def thirty_days_def)

lemma search_accepted_run:
  assumes "timestamp from_date = Inr from_ts" and "timestamp to_date = Inr to_ts"
    and "86400 \<le> to_ts - from_ts" and "to_ts - from_ts \<le> 2592000"
  shows "on_click timestamp tools (SearchMentionsByKeywords kw from_date to_date limit_input) =
         and_then
           (if limit_input < 20 then [Info ''Limit below minimum; using 20.'']
            else if limit_input > 30 then [Info ''Limit above maximum; using 30.'']
            else [], Finished)
           (lookup_and_run tools ''elfa_ai_search_mentions_by_keywords''
              (json_dumps (search_mentions_dict kw from_ts to_ts
                 (if limit_input < 20 then 20 else if limit_input > 30 then 30 else limit_input)))
              ''Search Mentions tool not found.'')"
  using assms by (simp add: search_mentions_dispatch one_day_def thirty_days_def)

lemma search_accepted_infos:
  assumes "timestamp from_date = Inr from_ts" and "timestamp to_date = Inr to_ts"
    and "86400 \<le> to_ts - from_ts" and "to_ts - from_ts \<le> 2592000"
  shows "infos (fst (on_click timestamp tools (SearchMentionsByKeywords kw from_date to_date limit_input))) =
         (if limit_input < 20 then [''Limit below minimum; using 20.'']
          else if limit_input > 30 then [''Limit above maximum; using 30.'']
          else [])"
  unfolding search_accepted_run[OF assms]
  by (simp add: and_then_Finished infos_append lookup_and_run_infos)

lemma search_wire_sol:
  "json_dumps (search_mentions_dict (str ''sol'') 1704067200 1704153600 20) =
     ''{\"keywords\": \"sol\", \"from_timestamp\": 1704067200, \"to_timestamp\": 1704153600, \"limit\": 20, \"cursor\": \"\"}''"
  "json_dumps (search_mentions_dict (str ''sol'') 1704067200 1704153600 30) =
     ''{\"keywords\": \"sol\", \"from_timestamp\": 1704067200, \"to_timestamp\": 1704153600, \"limit\": 30, \"cursor\": \"\"}''"
  "json_dumps (search_mentions_dict (str ''sol'') 1704067200 1704153600 25) =
     ''{\"keywords\": \"sol\", \"from_timestamp\": 1704067200, \"to_timestamp\": 1704153600, \"limit\": 25, \"cursor\": \"\"}''"
  by (simp_all add: dumps_eval search_mentions_dict_def)

lemma join_snoc: "xs \<noteq> [] \<Longrightarrow> join sep (xs @ [x]) = join sep xs @ sep @ x"
  by (induction sep xs rule: join.induct) simp_all

lemma json_dumps_snoc:
  "d \<noteq> [] \<Longrightarrow> json_dumps (d @ [kv]) = (''{'' @ join '', '' (map dumps_item d) @ '', '') @ dumps_item kv @ ''}''"
  by (simp add: json_dumps_def join_snoc)

lemma dumps_item_cursor: "dumps_item (''cursor'', JStr []) @ ''}'' = ''\"cursor\": \"\"}''"
  by (simp add: dumps_item_def encode_plain plain_char_def encode_empty)



lemma trending_wire_defaults:
  "json_dumps [(''time_window'', JStr (str ''24h'')), (''page'', JInt 1), (''page_size'', JInt 10),
               (''min_mentions'', JInt 5)]
   = ''{\"time_window\": \"24h\", \"page\": 1, \"page_size\": 10, \"min_mentions\": 5}''"
  by (simp add: dumps_eval)

lemma on_click_raises:
  assumes "request_dict timestamp f = Some d"
    and "find (\<lambda>t. name t = spec_tool_name (kind f)) tools = Some t"
    and "arun t (json_dumps d) = Inl e"
  shows "\<exists>ns. on_click timestamp tools f =
           (map Info ns @ [ARun (spec_tool_name (kind f)) (json_dumps d)], Raised e)"
proof -
  from on_click_dispatch[OF assms(1), of tools] obtain ns where
    "on_click timestamp tools f = and_then (map Info ns, Finished)
       (lookup_and_run tools (spec_tool_name (kind f)) (json_dumps d) (not_found_message (kind f)))"
    by blast
  then have "on_click timestamp tools f =
      (map Info ns @ [ARun (spec_tool_name (kind f)) (json_dumps d)], Raised e)"
    by (simp add: and_then_Finished lookup_and_run_raises[OF assms(2,3)])
  then show ?thesis ..
qed

lemma registered_find:
  "find (\<lambda>t. name t = n) tools = Some t \<Longrightarrow> registered tools n"
  by (simp add: registered_def)






section \<open>The date range of a keyword search\<close>

text \<open>
  Claim C1. In the Search Mentions by Keywords branch, once both dates have been
  converted to timestamps \<open>from_ts\<close> and \<open>to_ts\<close>, the request passes the range check
  exactly when \<open>86400 \<le> to_ts - from_ts \<le> 2592000\<close>: the range error is absent from
  the run exactly then, and with the search tool in the registry the tool is called
  exactly then. When the bound is violated the run shows the one error
  "Error: Date range must be between 1 and 30 days.", calls no tool, shows no result
  and ends normally.
\<close>

theorem search_date_range_gate:
  assumes "timestamp from_date = Inr from_ts" and "timestamp to_date = Inr to_ts"
  shows "((''Error: Date range must be between 1 and 30 days.''
            \<notin> set (errors (fst (script timestamp tools
                    (SearchMentionsByKeywords kw from_date to_date limit_input) True))))
          = (86400 \<le> to_ts - from_ts \<and> to_ts - from_ts \<le> 2592000))
       \<and> (registered tools ''elfa_ai_search_mentions_by_keywords'' \<longrightarrow>
            ((map fst (invocations (fst (script timestamp tools
                    (SearchMentionsByKeywords kw from_date to_date limit_input) True)))
               = [''elfa_ai_search_mentions_by_keywords''])
             = (86400 \<le> to_ts - from_ts \<and> to_ts - from_ts \<le> 2592000)))
       \<and> (\<not> (86400 \<le> to_ts - from_ts \<and> to_ts - from_ts \<le> 2592000) \<longrightarrow>
            errors (fst (script timestamp tools
                    (SearchMentionsByKeywords kw from_date to_date limit_input) True))
              = [''Error: Date range must be between 1 and 30 days.'']
          \<and> invocations (fst (script timestamp tools
                    (SearchMentionsByKeywords kw from_date to_date limit_input) True)) = []
          \<and> shown (fst (script timestamp tools
                    (SearchMentionsByKeywords kw from_date to_date limit_input) True)) = []
          \<and> snd (script timestamp tools
                    (SearchMentionsByKeywords kw from_date to_date limit_input) True) = Finished)"
proof (cases "86400 \<le> to_ts - from_ts \<and> to_ts - from_ts \<le> 2592000")
  case True
  let ?f = "SearchMentionsByKeywords kw from_date to_date limit_input"
  from True obtain d where d: "request_dict timestamp ?f = Some d"
    using search_request_dict[OF assms] by simp
  have "errors (fst (script timestamp tools ?f True)) =
        (if registered tools ''elfa_ai_search_mentions_by_keywords'' then []
         else [''Search Mentions tool not found.''])"
    using on_click_errors[OF d, of tools] by (simp add: script_errors)
  moreover have "invocations (fst (script timestamp tools ?f True)) =
        (if registered tools ''elfa_ai_search_mentions_by_keywords''
         then [(''elfa_ai_search_mentions_by_keywords'', json_dumps d)] else [])"
    using on_click_invocations[OF d, of tools] by (simp add: script_invocations)
  ultimately show ?thesis using True by simp
next
  case False
  then show ?thesis
    by (simp add: script_errors script_invocations script_shown script_status
        search_rejected_run[OF assms False] del: on_click.simps)
qed

theorem search_date_range_gate_witness:
  "utc_midnight \<lparr>year = 2024, month = 1, day = 1\<rparr> = Inr 1704067200
   \<and> utc_midnight \<lparr>year = 2024, month = 1, day = 2\<rparr> = Inr 1704153600
   \<and> registered echo_registry ''elfa_ai_search_mentions_by_keywords''
   \<and> ''Error: Date range must be between 1 and 30 days.''
        \<notin> set (errors (fst (script utc_midnight echo_registry
             (SearchMentionsByKeywords (str ''sol'') \<lparr>year = 2024, month = 1, day = 1\<rparr>
                \<lparr>year = 2024, month = 1, day = 2\<rparr> 5) True)))
   \<and> map fst (invocations (fst (script utc_midnight echo_registry
             (SearchMentionsByKeywords (str ''sol'') \<lparr>year = 2024, month = 1, day = 1\<rparr>
                \<lparr>year = 2024, month = 1, day = 2\<rparr> 5) True)))
      = [''elfa_ai_search_mentions_by_keywords'']
   \<and> errors (fst (script utc_midnight echo_registry
             (SearchMentionsByKeywords (str ''sol'') \<lparr>year = 2024, month = 1, day = 1\<rparr>
                \<lparr>year = 2024, month = 1, day = 1\<rparr> 5) True))
      = [''Error: Date range must be between 1 and 30 days.'']
   \<and> invocations (fst (script utc_midnight echo_registry
             (SearchMentionsByKeywords (str ''sol'') \<lparr>year = 2024, month = 1, day = 1\<rparr>
                \<lparr>year = 2024, month = 1, day = 1\<rparr> 5) True)) = []"
proof -
  note accepted = search_date_range_gate[where timestamp = utc_midnight
      and from_date = "\<lparr>year = 2024, month = 1, day = 1\<rparr>"
      and to_date = "\<lparr>year = 2024, month = 1, day = 2\<rparr>"
      and tools = echo_registry and kw = "str ''sol''" and limit_input = 5,
      OF utc_2024_01_01 utc_2024_01_02]
  note rejected = search_date_range_gate[where timestamp = utc_midnight
      and from_date = "\<lparr>year = 2024, month = 1, day = 1\<rparr>"
      and to_date = "\<lparr>year = 2024, month = 1, day = 1\<rparr>"
      and tools = echo_registry and kw = "str ''sol''" and limit_input = 5,
      OF utc_2024_01_01 utc_2024_01_01]
  from accepted rejected show ?thesis
    by (simp add: utc_2024_01_01 utc_2024_01_02 echo_registry_registered)
qed

section \<open>The limit of a keyword search\<close>

text \<open>
  Claim C2. In the Search Mentions by Keywords branch, for a request that passed the
  range check and any requested limit \<open>L\<close> (so in particular any \<open>L \<ge> 1\<close>), the limit
  placed in the dictionary is 20 if \<open>L < 20\<close>, 30 if \<open>L > 30\<close> and \<open>L\<close> otherwise. The
  run carries one informational notice when the limit was changed and none when
  \<open>20 \<le> L \<le> 30\<close>; the clamping raises no error, and with the search tool registered
  the tool is called with the dictionary holding the adjusted limit.
\<close>

theorem search_limit_clamped:
  assumes "timestamp from_date = Inr from_ts" and "timestamp to_date = Inr to_ts"
    and "86400 \<le> to_ts - from_ts" and "to_ts - from_ts \<le> 2592000"
  shows "map_of (search_mentions_dict kw from_ts to_ts
                  (if L < 20 then 20 else if L > 30 then 30 else L)) ''limit''
           = Some (JInt (if L < 20 then 20 else if L > 30 then 30 else L))
       \<and> infos (fst (script timestamp tools (SearchMentionsByKeywords kw from_date to_date L) True))
           = (if L < 20 then [''Limit below minimum; using 20.'']
              else if L > 30 then [''Limit above maximum; using 30.'']
              else [])
       \<and> (registered tools ''elfa_ai_search_mentions_by_keywords'' \<longrightarrow>
            errors (fst (script timestamp tools (SearchMentionsByKeywords kw from_date to_date L) True)) = []
          \<and> invocations (fst (script timestamp tools (SearchMentionsByKeywords kw from_date to_date L) True))
              = [(''elfa_ai_search_mentions_by_keywords'',
                  json_dumps (search_mentions_dict kw from_ts to_ts
                    (if L < 20 then 20 else if L > 30 then 30 else L)))])"
proof -
  let ?f = "SearchMentionsByKeywords kw from_date to_date L"
  let ?d = "search_mentions_dict kw from_ts to_ts (if L < 20 then 20 else if L > 30 then 30 else L)"
  have d: "request_dict timestamp ?f = Some ?d"
    using search_request_dict[OF assms(1,2), of kw L] assms(3,4) by simp
  have a: "map_of ?d ''limit'' = Some (JInt (if L < 20 then 20 else if L > 30 then 30 else L))"
    by (simp add: search_mentions_dict_def)
  have b: "infos (fst (script timestamp tools ?f True)) =
      (if L < 20 then [''Limit below minimum; using 20.'']
       else if L > 30 then [''Limit above maximum; using 30.''] else [])"
    unfolding script_infos by (rule search_accepted_infos[OF assms])
  have c: "registered tools ''elfa_ai_search_mentions_by_keywords'' \<longrightarrow>
      errors (fst (script timestamp tools ?f True)) = []
      \<and> invocations (fst (script timestamp tools ?f True)) =
        [(''elfa_ai_search_mentions_by_keywords'', json_dumps ?d)]"
    using on_click_errors[OF d, of tools] on_click_invocations[OF d, of tools]
    by (simp add: script_errors script_invocations)
  show ?thesis by (intro conjI a b c)
qed

theorem search_limit_clamped_witness:
  "infos (fst (script utc_midnight echo_registry
      (SearchMentionsByKeywords (str ''sol'') \<lparr>year = 2024, month = 1, day = 1\<rparr>
         \<lparr>year = 2024, month = 1, day = 2\<rparr> 5) True)) = [''Limit below minimum; using 20.'']
   \<and> invocations (fst (script utc_midnight echo_registry
      (SearchMentionsByKeywords (str ''sol'') \<lparr>year = 2024, month = 1, day = 1\<rparr>
         \<lparr>year = 2024, month = 1, day = 2\<rparr> 5) True))
     = [(''elfa_ai_search_mentions_by_keywords'',
         ''{\"keywords\": \"sol\", \"from_timestamp\": 1704067200, \"to_timestamp\": 1704153600, \"limit\": 20, \"cursor\": \"\"}'')]
   \<and> infos (fst (script utc_midnight echo_registry
      (SearchMentionsByKeywords (str ''sol'') \<lparr>year = 2024, month = 1, day = 1\<rparr>
         \<lparr>year = 2024, month = 1, day = 2\<rparr> 45) True)) = [''Limit above maximum; using 30.'']
   \<and> invocations (fst (script utc_midnight echo_registry
      (SearchMentionsByKeywords (str ''sol'') \<lparr>year = 2024, month = 1, day = 1\<rparr>
         \<lparr>year = 2024, month = 1, day = 2\<rparr> 45) True))
     = [(''elfa_ai_search_mentions_by_keywords'',
         ''{\"keywords\": \"sol\", \"from_timestamp\": 1704067200, \"to_timestamp\": 1704153600, \"limit\": 30, \"cursor\": \"\"}'')]
   \<and> infos (fst (script utc_midnight echo_registry
      (SearchMentionsByKeywords (str ''sol'') \<lparr>year = 2024, month = 1, day = 1\<rparr>
         \<lparr>year = 2024, month = 1, day = 2\<rparr> 25) True)) = []
   \<and> errors (fst (script utc_midnight echo_registry
      (SearchMentionsByKeywords (str ''sol'') \<lparr>year = 2024, month = 1, day = 1\<rparr>
         \<lparr>year = 2024, month = 1, day = 2\<rparr> 25) True)) = []
   \<and> invocations (fst (script utc_midnight echo_registry
      (SearchMentionsByKeywords (str ''sol'') \<lparr>year = 2024, month = 1, day = 1\<rparr>
         \<lparr>year = 2024, month = 1, day = 2\<rparr> 25) True))
     = [(''elfa_ai_search_mentions_by_keywords'',
         ''{\"keywords\": \"sol\", \"from_timestamp\": 1704067200, \"to_timestamp\": 1704153600, \"limit\": 25, \"cursor\": \"\"}'')]"
proof -
  have rng: "(86400::int) \<le> 1704153600 - 1704067200" "(1704153600::int) - 1704067200 \<le> 2592000"
    by simp_all
  note inst = search_limit_clamped[where timestamp = utc_midnight
      and from_date = "\<lparr>year = 2024, month = 1, day = 1\<rparr>"
      and to_date = "\<lparr>year = 2024, month = 1, day = 2\<rparr>"
      and tools = echo_registry and kw = "str ''sol''",
      OF utc_2024_01_01 utc_2024_01_02 rng]
  from inst[of 5] inst[of 45] inst[of 25] show ?thesis
    by (simp add: echo_registry_registered search_wire_sol)
qed

text \<open>
  Claim C9. In the Search Mentions by Keywords branch, when the range check fails the
  run consists of the card's markup and the range error only: no notice about the
  limit is shown, no dictionary is built, no tool is called, and the run does not
  depend on the requested limit.
\<close>

theorem range_error_precedes_clamping:
  assumes "timestamp from_date = Inr from_ts" and "timestamp to_date = Inr to_ts"
    and "\<not> (86400 \<le> to_ts - from_ts \<and> to_ts - from_ts \<le> 2592000)"
  shows "script timestamp tools (SearchMentionsByKeywords kw from_date to_date L) True =
           ([Markdown ''<div class=\"card\">'',
             Markdown ''<div class=\"card-header\"><i class=\"fa fa-search\"></i> Search Mentions by Keywords</div>'',
             Spinner ''Searching mentions...'',
             Error ''Error: Date range must be between 1 and 30 days.'',
             Markdown ''</div>''], Finished)
       \<and> infos (fst (script timestamp tools (SearchMentionsByKeywords kw from_date to_date L) True)) = []
       \<and> errors (fst (script timestamp tools (SearchMentionsByKeywords kw from_date to_date L) True))
           = [''Error: Date range must be between 1 and 30 days.'']
       \<and> invocations (fst (script timestamp tools (SearchMentionsByKeywords kw from_date to_date L) True)) = []
       \<and> request_dict timestamp (SearchMentionsByKeywords kw from_date to_date L) = None
       \<and> script timestamp tools (SearchMentionsByKeywords kw from_date to_date L) True
           = script timestamp tools (SearchMentionsByKeywords kw from_date to_date L') True"
proof -
  have run: "\<And>l. script timestamp tools (SearchMentionsByKeywords kw from_date to_date l) True =
           ([Markdown ''<div class=\"card\">'',
             Markdown ''<div class=\"card-header\"><i class=\"fa fa-search\"></i> Search Mentions by Keywords</div>'',
             Spinner ''Searching mentions...'',
             Error ''Error: Date range must be between 1 and 30 days.'',
             Markdown ''</div>''], Finished)"
    by (simp add: script_clicked search_rejected_run[OF assms] del: on_click.simps)
  have "request_dict timestamp (SearchMentionsByKeywords kw from_date to_date L) = None"
    using search_request_dict[OF assms(1,2), of kw L] assms(3) by simp
  then show ?thesis by (simp add: run)
qed

theorem range_error_precedes_clamping_witness:
  "utc_midnight \<lparr>year = 2024, month = 1, day = 1\<rparr> = Inr 1704067200
   \<and> utc_midnight \<lparr>year = 2024, month = 2, day = 15\<rparr> = Inr 1707955200
   \<and> \<not> ((1707955200::int) - 1704067200 \<le> 2592000)
   \<and> infos (fst (script utc_midnight echo_registry
        (SearchMentionsByKeywords (str ''sol'') \<lparr>year = 2024, month = 1, day = 1\<rparr>
           \<lparr>year = 2024, month = 2, day = 15\<rparr> 5) True)) = []
   \<and> errors (fst (script utc_midnight echo_registry
        (SearchMentionsByKeywords (str ''sol'') \<lparr>year = 2024, month = 1, day = 1\<rparr>
           \<lparr>year = 2024, month = 2, day = 15\<rparr> 5) True))
       = [''Error: Date range must be between 1 and 30 days.'']
   \<and> invocations (fst (script utc_midnight echo_registry
        (SearchMentionsByKeywords (str ''sol'') \<lparr>year = 2024, month = 1, day = 1\<rparr>
           \<lparr>year = 2024, month = 2, day = 15\<rparr> 5) True)) = []"
proof -
  have rng: "\<not> ((86400::int) \<le> 1707955200 - 1704067200 \<and> (1707955200::int) - 1704067200 \<le> 2592000)"
    by simp
  from range_error_precedes_clamping[where timestamp = utc_midnight
      and from_date = "\<lparr>year = 2024, month = 1, day = 1\<rparr>"
      and to_date = "\<lparr>year = 2024, month = 2, day = 15\<rparr>"
      and tools = echo_registry and kw = "str ''sol''" and L = 5,
      OF utc_2024_01_01 utc_2024_02_15 rng]
  show ?thesis by (simp add: utc_2024_01_01 utc_2024_02_15)
qed

section \<open>The cursor of a keyword search\<close>

text \<open>
  Claim C6. Every dictionary the Search Mentions by Keywords branch builds has the
  empty string under \<open>cursor\<close>; its serialisation ends with that field, and it is the
  text the search tool is called with.
\<close>

theorem search_cursor_empty:
  assumes "request_dict timestamp (SearchMentionsByKeywords kw from_date to_date L) = Some d"
  shows "map_of d ''cursor'' = Some (JStr [])
       \<and> (\<exists>pre. json_dumps d = pre @ ''\"cursor\": \"\"}'')
       \<and> (registered tools ''elfa_ai_search_mentions_by_keywords'' \<longrightarrow>
            invocations (fst (script timestamp tools
                (SearchMentionsByKeywords kw from_date to_date L) True))
              = [(''elfa_ai_search_mentions_by_keywords'', json_dumps d)])"
proof -
  from assms obtain from_ts to_ts where
    "d = search_mentions_dict kw from_ts to_ts (if L < 20 then 20 else if L > 30 then 30 else L)"
    by (auto split: sum.splits if_splits)
  then obtain l where d: "d = search_mentions_dict kw from_ts to_ts l" ..
  have a: "map_of d ''cursor'' = Some (JStr [])"
    by (simp add: d search_mentions_dict_def)
  have "d = [(''keywords'', JStr kw), (''from_timestamp'', JInt from_ts),
             (''to_timestamp'', JInt to_ts), (''limit'', JInt l)] @ [(''cursor'', JStr [])]"
    by (simp add: d search_mentions_dict_def)
  moreover define pre where
    "pre = ''{'' @ join '', '' (map dumps_item [(''keywords'', JStr kw), (''from_timestamp'', JInt from_ts),
             (''to_timestamp'', JInt to_ts), (''limit'', JInt l)]) @ '', ''"
  ultimately have "json_dumps d = pre @ ''\"cursor\": \"\"}''"
    by (simp only: json_dumps_snoc[OF list.distinct(2)] dumps_item_cursor)
  then have b: "\<exists>pre. json_dumps d = pre @ ''\"cursor\": \"\"}''"
    by (rule exI[where x = pre and P = "\<lambda>p. json_dumps d = p @ ''\"cursor\": \"\"}''"])
  have c: "registered tools ''elfa_ai_search_mentions_by_keywords'' \<longrightarrow>
      invocations (fst (script timestamp tools (SearchMentionsByKeywords kw from_date to_date L) True))
        = [(''elfa_ai_search_mentions_by_keywords'', json_dumps d)]"
    using on_click_invocations[OF assms, of tools] by (simp add: script_invocations)
  show ?thesis by (intro conjI a b c)
qed

theorem search_cursor_empty_witness:
  "request_dict utc_midnight
      (SearchMentionsByKeywords (str ''sol'') \<lparr>year = 2024, month = 1, day = 1\<rparr>
         \<lparr>year = 2024, month = 1, day = 2\<rparr> 5)
     = Some (search_mentions_dict (str ''sol'') 1704067200 1704153600 20)
   \<and> registered echo_registry ''elfa_ai_search_mentions_by_keywords''
   \<and> map_of (search_mentions_dict (str ''sol'') 1704067200 1704153600 20) ''cursor'' = Some (JStr [])
   \<and> invocations (fst (script utc_midnight echo_registry
        (SearchMentionsByKeywords (str ''sol'') \<lparr>year = 2024, month = 1, day = 1\<rparr>
           \<lparr>year = 2024, month = 1, day = 2\<rparr> 5) True))
       = [(''elfa_ai_search_mentions_by_keywords'',
           ''{\"keywords\": \"sol\", \"from_timestamp\": 1704067200, \"to_timestamp\": 1704153600, \"limit\": 20, \"cursor\": \"\"}'')]"
proof -
  have d: "request_dict utc_midnight
      (SearchMentionsByKeywords (str ''sol'') \<lparr>year = 2024, month = 1, day = 1\<rparr>
         \<lparr>year = 2024, month = 1, day = 2\<rparr> 5)
     = Some (search_mentions_dict (str ''sol'') 1704067200 1704153600 20)"
    using search_request_dict[OF utc_2024_01_01 utc_2024_01_02, of "str ''sol''" 5] by simp
  note inst = search_cursor_empty[OF d, of echo_registry]
  have a: "map_of (search_mentions_dict (str ''sol'') 1704067200 1704153600 20) ''cursor'' = Some (JStr [])"
    by (rule inst[THEN conjunct1])
  have b: "invocations (fst (script utc_midnight echo_registry
        (SearchMentionsByKeywords (str ''sol'') \<lparr>year = 2024, month = 1, day = 1\<rparr>
           \<lparr>year = 2024, month = 1, day = 2\<rparr> 5) True))
       = [(''elfa_ai_search_mentions_by_keywords'',
           json_dumps (search_mentions_dict (str ''sol'') 1704067200 1704153600 20))]"
    by (rule inst[THEN conjunct2, THEN conjunct2, rule_format, OF echo_registry_registered(3)])
  show ?thesis
    by (intro conjI d echo_registry_registered(3) a b[unfolded search_wire_sol(1)])
qed

section \<open>Tool names and payload fields\<close>



text \<open>
  Claim C7. Trending Tokens with every widget at its default builds the dictionary
  with \<open>time_window\<close> "24h", \<open>page\<close> 1, \<open>page_size\<close> 10 and \<open>min_mentions\<close> 5, in that
  order, and with the tool registered that dictionary's serialisation is what the tool
  is called with.
\<close>

theorem trending_defaults_payload:
  "request_dict timestamp trending_tokens_defaults =
     Some [(''time_window'', JStr (str ''24h'')), (''page'', JInt 1), (''page_size'', JInt 10),
           (''min_mentions'', JInt 5)]
   \<and> json_dumps [(''time_window'', JStr (str ''24h'')), (''page'', JInt 1), (''page_size'', JInt 10),
                  (''min_mentions'', JInt 5)]
       = ''{\"time_window\": \"24h\", \"page\": 1, \"page_size\": 10, \"min_mentions\": 5}''
   \<and> (registered tools ''elfa_ai_get_trending_tokens'' \<longrightarrow>
        invocations (fst (script timestamp tools trending_tokens_defaults True))
          = [(''elfa_ai_get_trending_tokens'',
              ''{\"time_window\": \"24h\", \"page\": 1, \"page_size\": 10, \"min_mentions\": 5}'')])"
proof -
  have d: "request_dict timestamp trending_tokens_defaults =
     Some [(''time_window'', JStr (str ''24h'')), (''page'', JInt 1), (''page_size'', JInt 10),
           (''min_mentions'', JInt 5)]"
    by (simp add: trending_tokens_defaults_def trending_tokens_dict_def)
  have k: "spec_tool_name (kind trending_tokens_defaults) = ''elfa_ai_get_trending_tokens''"
    by (simp add: trending_tokens_defaults_def)
  have c: "registered tools ''elfa_ai_get_trending_tokens'' \<longrightarrow>
        invocations (fst (script timestamp tools trending_tokens_defaults True))
          = [(''elfa_ai_get_trending_tokens'',
              ''{\"time_window\": \"24h\", \"page\": 1, \"page_size\": 10, \"min_mentions\": 5}'')]"
    using on_click_invocations[OF d, of tools]
    by (simp add: script_invocations k trending_wire_defaults)
  show ?thesis by (intro conjI d trending_wire_defaults c)
qed

theorem trending_defaults_payload_witness:
  "registered echo_registry ''elfa_ai_get_trending_tokens''
   \<and> invocations (fst (script utc_midnight echo_registry trending_tokens_defaults True))
       = [(''elfa_ai_get_trending_tokens'',
           ''{\"time_window\": \"24h\", \"page\": 1, \"page_size\": 10, \"min_mentions\": 5}'')]"
  using trending_defaults_payload[of utc_midnight echo_registry]
  by (simp add: echo_registry_registered)

section \<open>Failures of the collaborator\<close>

text \<open>
  Claim C4, as the code has it. For every query type, when the tool that the lookup
  finds raises during the call, nothing in the script catches the exception: the run
  ends with that exception raised, the call is the last thing the script did, and the
  script has shown no error message and no result.
\<close>

theorem tool_exception_propagates:
  assumes "request_dict timestamp f = Some d"
    and "find (\<lambda>t. name t = spec_tool_name (kind f)) tools = Some t"
    and "arun t (json_dumps d) = Inl e"
  shows "snd (script timestamp tools f True) = Raised e
       \<and> errors (fst (script timestamp tools f True)) = []
       \<and> shown (fst (script timestamp tools f True)) = []
       \<and> invocations (fst (script timestamp tools f True)) = [(spec_tool_name (kind f), json_dumps d)]
       \<and> last (fst (script timestamp tools f True)) = ARun (spec_tool_name (kind f)) (json_dumps d)"
proof -
  from on_click_raises[OF assms] obtain ns where
    run: "on_click timestamp tools f =
            (map Info ns @ [ARun (spec_tool_name (kind f)) (json_dumps d)], Raised e)"
    by blast
  have reg: "registered tools (spec_tool_name (kind f))"
    by (rule registered_find[OF assms(2)])
  have a: "snd (script timestamp tools f True) = Raised e"
    by (simp add: script_status run del: on_click.simps)
  have b: "errors (fst (script timestamp tools f True)) = []"
    by (simp add: script_errors on_click_errors[OF assms(1)] reg del: on_click.simps)
  have c: "shown (fst (script timestamp tools f True)) = []"
    by (simp add: script_shown run shown_append shown_map_Info del: on_click.simps)
  have d: "invocations (fst (script timestamp tools f True)) = [(spec_tool_name (kind f), json_dumps d)]"
    by (simp add: script_invocations on_click_invocations[OF assms(1)] reg del: on_click.simps)
  have e: "last (fst (script timestamp tools f True)) = ARun (spec_tool_name (kind f)) (json_dumps d)"
    by (simp add: script_clicked run del: on_click.simps)
  show ?thesis by (intro conjI a b c d e)
qed

theorem tool_exception_propagates_witness:
  "request_dict utc_midnight (GetTwitterStats []) = Some (twitter_stats_dict [])
   \<and> find (\<lambda>t. name t = ''elfa_ai_get_smart_twitter_account_stats'')
         [failing_tool ''elfa_ai_get_smart_twitter_account_stats'' ''HTTP 503'']
       = Some (failing_tool ''elfa_ai_get_smart_twitter_account_stats'' ''HTTP 503'')
   \<and> arun (failing_tool ''elfa_ai_get_smart_twitter_account_stats'' ''HTTP 503'')
         (json_dumps (twitter_stats_dict [])) = Inl ''HTTP 503''
   \<and> snd (script utc_midnight [failing_tool ''elfa_ai_get_smart_twitter_account_stats'' ''HTTP 503'']
         (GetTwitterStats []) True) = Raised ''HTTP 503''
   \<and> errors (fst (script utc_midnight [failing_tool ''elfa_ai_get_smart_twitter_account_stats'' ''HTTP 503'']
         (GetTwitterStats []) True)) = []
   \<and> shown (fst (script utc_midnight [failing_tool ''elfa_ai_get_smart_twitter_account_stats'' ''HTTP 503'']
         (GetTwitterStats []) True)) = []"
proof -
  have d: "request_dict utc_midnight (GetTwitterStats []) = Some (twitter_stats_dict [])"
    by simp
  have f: "find (\<lambda>t. name t = spec_tool_name (kind (GetTwitterStats [])))
         [failing_tool ''elfa_ai_get_smart_twitter_account_stats'' ''HTTP 503'']
       = Some (failing_tool ''elfa_ai_get_smart_twitter_account_stats'' ''HTTP 503'')"
    by (simp add: failing_tool_def)
  have r: "arun (failing_tool ''elfa_ai_get_smart_twitter_account_stats'' ''HTTP 503'')
         (json_dumps (twitter_stats_dict [])) = Inl ''HTTP 503''"
    by (simp add: failing_tool_def)
  from tool_exception_propagates[OF d f r] f r show ?thesis
    by simp
qed

text \<open>
  The claim as the specification states it, that the exception is caught and shown as a
  generic error message, fails: with a Smart Mentions tool that raises, the run ends
  raised and holds no error message.
\<close>

theorem tool_exception_not_caught:
  "is_raised (snd (script utc_midnight
      [failing_tool ''elfa_ai_get_smart_mentions'' ''connection refused'']
      smart_mentions_defaults True))
   \<and> snd (script utc_midnight
      [failing_tool ''elfa_ai_get_smart_mentions'' ''connection refused'']
      smart_mentions_defaults True) = Raised ''connection refused''
   \<and> errors (fst (script utc_midnight
      [failing_tool ''elfa_ai_get_smart_mentions'' ''connection refused'']
      smart_mentions_defaults True)) = []
   \<and> fst (script utc_midnight
      [failing_tool ''elfa_ai_get_smart_mentions'' ''connection refused'']
      smart_mentions_defaults True)
     = [Markdown ''<div class=\"card\">'',
        Markdown ''<div class=\"card-header\"><i class=\"fa fa-lightbulb\"></i> Get Smart Mentions</div>'',
        Spinner ''Fetching Smart Mentions...'',
        ARun ''elfa_ai_get_smart_mentions'' ''{\"limit\": 5, \"offset\": 0}'']"
proof -
  have f: "find (\<lambda>t. name t = ''elfa_ai_get_smart_mentions'')
         [failing_tool ''elfa_ai_get_smart_mentions'' ''connection refused'']
       = Some (failing_tool ''elfa_ai_get_smart_mentions'' ''connection refused'')"
    by (simp add: failing_tool_def)
  have r: "arun (failing_tool ''elfa_ai_get_smart_mentions'' ''connection refused'')
         (json_dumps (smart_mentions_dict 5 0)) = Inl ''connection refused''"
    by (simp add: failing_tool_def)
  have w: "json_dumps (smart_mentions_dict 5 0) = ''{\"limit\": 5, \"offset\": 0}''"
    by (simp add: smart_mentions_dict_def dumps_eval)
  have run: "on_click utc_midnight [failing_tool ''elfa_ai_get_smart_mentions'' ''connection refused'']
        smart_mentions_defaults
      = ([ARun ''elfa_ai_get_smart_mentions'' ''{\"limit\": 5, \"offset\": 0}''], Raised ''connection refused'')"
    using lookup_and_run_raises[OF f r, of "''Smart Mentions tool not found.''"]
    by (simp add: smart_mentions_defaults_def smart_mentions_def w)
  show ?thesis
    by (simp add: script_clicked run del: on_click.simps) (simp add: smart_mentions_defaults_def)
qed

text \<open>
  Claim C5. For every query type, when no tool of the registry has the required name,
  the run never ends with an exception, calls no tool and shows no result; and when
  the request reaches the lookup, the run shows the one error "... tool not found." of
  its branch and goes on to the end of the script.
\<close>

theorem missing_tool_reported:
  assumes "\<not> registered tools (spec_tool_name (kind f))"
  shows "\<not> is_raised (snd (script timestamp tools f True))
       \<and> invocations (fst (script timestamp tools f True)) = []
       \<and> shown (fst (script timestamp tools f True)) = []
       \<and> (request_dict timestamp f \<noteq> None \<longrightarrow>
            errors (fst (script timestamp tools f True)) = [not_found_message (kind f)]
          \<and> snd (script timestamp tools f True) = Finished
          \<and> last (fst (script timestamp tools f True)) = Markdown ''</div>'')"
proof (cases "request_dict timestamp f")
  case None
  from on_click_blocked[OF None, of tools] show ?thesis
    by (simp add: None script_status script_invocations script_shown del: on_click.simps)
next
  case (Some d)
  from on_click_dispatch[OF Some, of tools] obtain ns where
    "on_click timestamp tools f = and_then (map Info ns, Finished)
       (lookup_and_run tools (spec_tool_name (kind f)) (json_dumps d) (not_found_message (kind f)))"
    by blast
  then have run: "on_click timestamp tools f = (map Info ns @ [Error (not_found_message (kind f))], Finished)"
    by (simp add: and_then_Finished lookup_and_run_missing[OF assms])
  show ?thesis
    by (simp add: Some script_clicked run invocations_append invocations_map_Info
        shown_append shown_map_Info errors_append errors_map_Info del: on_click.simps)
qed

theorem missing_tool_reported_witness:
  "\<not> registered [echo_tool ''elfa_ai_get_trending_tokens''] (spec_tool_name (kind smart_mentions_defaults))
   \<and> request_dict utc_midnight smart_mentions_defaults \<noteq> None
   \<and> errors (fst (script utc_midnight [echo_tool ''elfa_ai_get_trending_tokens'']
        smart_mentions_defaults True)) = [''Smart Mentions tool not found.'']
   \<and> snd (script utc_midnight [echo_tool ''elfa_ai_get_trending_tokens'']
        smart_mentions_defaults True) = Finished
   \<and> invocations (fst (script utc_midnight [echo_tool ''elfa_ai_get_trending_tokens'']
        smart_mentions_defaults True)) = []"
proof -
  have r: "\<not> registered [echo_tool ''elfa_ai_get_trending_tokens'']
             (spec_tool_name (kind smart_mentions_defaults))"
    by (simp add: registered_def echo_tool_def smart_mentions_defaults_def)
  have d: "request_dict utc_midnight smart_mentions_defaults \<noteq> None"
    by (simp add: smart_mentions_defaults_def)
  have k: "not_found_message (kind smart_mentions_defaults) = ''Smart Mentions tool not found.''"
    by (simp add: smart_mentions_defaults_def)
  from missing_tool_reported[OF r, of utc_midnight] r d show ?thesis
    by (simp add: k)
qed

section \<open>The username of Twitter Stats\<close>



section \<open>Payloads do not depend on the registry\<close>



end
